theory Spec2Isabelle
  imports Complex_Main "HOL-Library.Word"
begin

section \<open>Seed-Oss: configuration\<close>

text \<open>
  A shallow embedding of \<^verbatim>\<open>seed_oss_configuration.py\<close> and of the forward calls of
  \<^verbatim>\<open>modeling_seed_oss.py\<close>. Python exceptions are values of \<open>error\<close>, carried on the
  left of a sum; the messages are the ones of the source, shortened.
\<close>

datatype error =
    ValueError string
  | AssertionError string
  | ZeroDivisionError
  | IndexError
  | AttributeError

text \<open>
  Values of the untyped payloads (\<^verbatim>\<open>dict[str, Any]\<close>, \<^verbatim>\<open>**kwargs\<close>). The rotary base
  is a Python float that is only stored and compared with \<^verbatim>\<open>None\<close>, never computed
  with, so a float is represented by the real number it denotes.
\<close>

datatype pyval =
    PNone
  | PBool bool
  | PInt int
  | PFloat real
  | PStr string
  | PDict "(string \<times> pyval) list"

type_synonym pydict = "(string \<times> pyval) list"

text \<open>\<^verbatim>\<open>d.get(k)\<close>: \<^verbatim>\<open>None\<close> when the key is missing.\<close>

definition dict_get :: "pydict \<Rightarrow> string \<Rightarrow> pyval" where
  "dict_get d k = (case map_of d k of None \<Rightarrow> PNone | Some v \<Rightarrow> v)"

text \<open>
  A keyword parameter of a Python signature is either left out by the caller, and
  takes the default of the signature, or passed.
\<close>

datatype 'a arg = Omitted | Passed 'a

definition arg_or :: "'a \<Rightarrow> 'a arg \<Rightarrow> 'a" where
  "arg_or d a = (case a of Omitted \<Rightarrow> d | Passed v \<Rightarrow> v)"

text \<open>
  \<^verbatim>\<open>_extract_rope_scaling\<close>: every entry but the one under \<^verbatim>\<open>"rope_theta"\<close>; an empty
  result is falsy and becomes \<^verbatim>\<open>None\<close>.
\<close>

definition extract_rope_scaling :: "pydict option \<Rightarrow> pydict option" where
  "extract_rope_scaling rope_params =
     (case rope_params of
        None \<Rightarrow> None
      | Some d \<Rightarrow>
          (let scaling = filter (\<lambda>(k, v). k \<noteq> ''rope_theta'') d
           in if scaling = [] then None else Some scaling))"

text \<open>
  The call of \<^verbatim>\<open>SeedOssConfig.__init__\<close>: the parameters that the body computes with.
  The parameters that are stored unchanged (\<^verbatim>\<open>vocab_size\<close>, \<^verbatim>\<open>intermediate_size\<close>,
  \<^verbatim>\<open>hidden_act\<close>, the initialiser range, the epsilon, the dropout rates, the bias flags,
  the token ids other than the padding token, the checkpointing policy, \<^verbatim>\<open>bits\<close>) are left
  out. A parameter typed \<^verbatim>\<open>T | None\<close> carries an option.
\<close>

record init_call =
  arg_hidden_size :: "int arg"
  arg_num_hidden_layers :: "int arg"
  arg_num_attention_heads :: "int arg"
  arg_num_key_value_heads :: "int option arg"
  arg_max_position_embeddings :: "int arg"
  arg_pad_token_id :: "int option arg"
  arg_rope_parameters :: "pydict option arg"
  arg_rope_scaling :: "pyval arg"
  arg_rope_theta :: "pyval arg"
  arg_head_dim :: "int option arg"
  arg_use_scan_mlp :: "bool arg"
  arg_scan_mlp_chunk_size :: "int arg"
  arg_layer_types :: "string list option arg"

record SeedOssConfig =
  hidden_size :: int
  num_hidden_layers :: int
  num_attention_heads :: int
  num_key_value_heads :: int
  max_position_embeddings :: int
  pad_token_id :: "int option"
  layer_types :: "string list"
  head_dim :: int
  rope_parameters :: "pydict option"
  rope_theta :: pyval
  rope_scaling :: pyval
  use_scan_mlp :: bool
  scan_mlp_chunk_size :: int

text \<open>
  \<^verbatim>\<open>hidden_size // num_attention_heads\<close>: floor division, as \<open>div\<close> on \<open>int\<close>, raising
  on a zero divisor.
\<close>

definition floordiv :: "int \<Rightarrow> int \<Rightarrow> error + int" where
  "floordiv a b = (if b = 0 then Inl ZeroDivisionError else Inr (a div b))"

text \<open>
  Lines 150 to 155: the rotary base from the \<^verbatim>\<open>rope_theta\<close> parameter, the entry popped
  from \<^verbatim>\<open>kwargs\<close> and the \<^verbatim>\<open>rope_parameters\<close> payload.
\<close>

definition resolve_rope_theta :: "pydict option \<Rightarrow> pyval \<Rightarrow> pyval \<Rightarrow> pyval" where
  "resolve_rope_theta rope_params theta_arg theta_kwarg =
     (let v0 = (if theta_arg \<noteq> PNone then theta_arg else theta_kwarg);
          v1 = (case rope_params of
                  None \<Rightarrow> v0
                | Some d \<Rightarrow> if dict_get d ''rope_theta'' \<noteq> PNone then dict_get d ''rope_theta'' else v0)
      in if v1 = PNone then PFloat 10000 else v1)"

text \<open>Lines 157 to 161: the rotary scaling.\<close>

definition resolve_rope_scaling :: "pydict option \<Rightarrow> pyval \<Rightarrow> pyval \<Rightarrow> pyval" where
  "resolve_rope_scaling rope_params scaling_arg scaling_kwarg =
     (let v0 = (if scaling_arg \<noteq> PNone then scaling_arg else scaling_kwarg)
      in case extract_rope_scaling rope_params of
           None \<Rightarrow> v0
         | Some s \<Rightarrow> PDict s)"

text \<open>
  Line 143: \<^verbatim>\<open>layer_types or ["full_attention" for _ in range(num_hidden_layers)]\<close>.
  \<^verbatim>\<open>None\<close> and the empty list are both falsy; \<^verbatim>\<open>range\<close> of a negative number is empty.
\<close>

definition resolve_layer_types :: "string list option \<Rightarrow> int \<Rightarrow> string list" where
  "resolve_layer_types types_arg n_layers =
     (case types_arg of
        None \<Rightarrow> replicate (nat n_layers) ''full_attention''
      | Some ts \<Rightarrow> if ts = [] then replicate (nat n_layers) ''full_attention'' else ts)"

text \<open>
  \<^verbatim>\<open>SeedOssConfig.__init__\<close>. \<open>kwargs\<close> is the dictionary of the extra keyword
  arguments as the body sees it. The defaults are those of the signature (lines 79 to
  108). The call of the base class's initialiser stores \<^verbatim>\<open>pad_token_id\<close>.
\<close>

definition SeedOssConfig_init :: "init_call \<Rightarrow> pydict \<Rightarrow> error + SeedOssConfig" where
  "SeedOssConfig_init c kwargs =
     (let rope_scaling_kwarg = dict_get kwargs ''rope_scaling'';
          rope_theta_kwarg = dict_get kwargs ''rope_theta'';
          hidden = arg_or 4096 (arg_hidden_size c);
          layers = arg_or 64 (arg_num_hidden_layers c);
          heads = arg_or 80 (arg_num_attention_heads c);
          kv_heads = (case arg_or (Some 8) (arg_num_key_value_heads c) of
                        None \<Rightarrow> heads | Some k \<Rightarrow> k);
          rope_params = arg_or None (arg_rope_parameters c);
          resolved_types = resolve_layer_types (arg_or None (arg_layer_types c)) layers
      in case (case arg_or (Some 128) (arg_head_dim c) of
                 Some h \<Rightarrow> Inr h
               | None \<Rightarrow> floordiv hidden heads) of
           Inl e \<Rightarrow> Inl e
         | Inr hdim \<Rightarrow>
             Inr \<lparr> hidden_size = hidden,
                   num_hidden_layers = layers,
                   num_attention_heads = heads,
                   num_key_value_heads = kv_heads,
                   max_position_embeddings = arg_or 524288 (arg_max_position_embeddings c),
                   pad_token_id = arg_or (Some 1) (arg_pad_token_id c),
                   layer_types = resolved_types,
                   head_dim = hdim,
                   rope_parameters = rope_params,
                   rope_theta = resolve_rope_theta rope_params
                                  (arg_or PNone (arg_rope_theta c)) rope_theta_kwarg,
                   rope_scaling = resolve_rope_scaling rope_params
                                    (arg_or PNone (arg_rope_scaling c)) rope_scaling_kwarg,
                   use_scan_mlp = arg_or False (arg_use_scan_mlp c),
                   scan_mlp_chunk_size = arg_or 1024 (arg_scan_mlp_chunk_size c) \<rparr>)"

text \<open>The call \<^verbatim>\<open>SeedOssConfig()\<close>: every parameter left to its default.\<close>

definition no_args :: init_call where
  "no_args =
     \<lparr> arg_hidden_size = Omitted, arg_num_hidden_layers = Omitted,
       arg_num_attention_heads = Omitted, arg_num_key_value_heads = Omitted,
       arg_max_position_embeddings = Omitted, arg_pad_token_id = Omitted,
       arg_rope_parameters = Omitted, arg_rope_scaling = Omitted,
       arg_rope_theta = Omitted, arg_head_dim = Omitted,
       arg_use_scan_mlp = Omitted, arg_scan_mlp_chunk_size = Omitted,
       arg_layer_types = Omitted \<rparr>"


section \<open>Seed-Oss: forward calls\<close>

subsection \<open>Arrays\<close>

text \<open>
  An array of two leading axes (batch, sequence): its shape and its rows. The cells of
  a hidden-state or logits tensor are its vectors along the last axis, of a type the
  model leaves open, since the floating-point work belongs to the external layers.
\<close>

record 'a arr2 =
  dim0 :: nat
  dim1 :: nat
  cells :: "'a list list"

definition wf_arr2 :: "'a arr2 \<Rightarrow> bool" where
  "wf_arr2 a = (length (cells a) = dim0 a \<and> list_all (\<lambda>r. length r = dim1 a) (cells a))"

definition map_arr2 :: "('a \<Rightarrow> 'b) \<Rightarrow> 'a arr2 \<Rightarrow> 'b arr2" where
  "map_arr2 f a = \<lparr> dim0 = dim0 a, dim1 = dim1 a, cells = map (map f) (cells a) \<rparr>"

definition ones :: "nat \<Rightarrow> nat \<Rightarrow> int arr2" where
  "ones b l = \<lparr> dim0 = b, dim1 = l, cells = replicate b (replicate l 1) \<rparr>"

text \<open>\<^verbatim>\<open>.astype("i4")\<close> and \<^verbatim>\<open>.astype(jnp.int32)\<close>: the value as a signed 32-bit integer.\<close>

definition astype_i4 :: "int \<Rightarrow> int" where
  "astype_i4 x = sint (word_of_int x :: 32 word)"

text \<open>\<^verbatim>\<open>jnp.cumsum(x, axis=-1)\<close> on one row: the running sums.\<close>

fun cumsum_from :: "int \<Rightarrow> int list \<Rightarrow> int list" where
  "cumsum_from acc [] = []"
| "cumsum_from acc (x # xs) = (acc + x) # cumsum_from (acc + x) xs"

definition cumsum :: "int list \<Rightarrow> int list" where
  "cumsum xs = cumsum_from 0 xs"

text \<open>
  \<^verbatim>\<open>jnp.broadcast_to(a, (b, l))\<close> for a two-axis array: an axis is kept when it has the
  length asked for, repeated when it has length 1, and the call raises otherwise.
\<close>

definition msg_broadcast :: string where
  "msg_broadcast = ''Incompatible shapes for broadcasting''"

definition fits :: "'a arr2 \<Rightarrow> nat \<Rightarrow> nat \<Rightarrow> bool" where
  "fits a b l = ((dim0 a = b \<or> dim0 a = 1) \<and> (dim1 a = l \<or> dim1 a = 1))"

definition broadcast_to :: "'a arr2 \<Rightarrow> nat \<Rightarrow> nat \<Rightarrow> error + 'a arr2" where
  "broadcast_to a b l =
     (if fits a b l
      then Inr \<lparr> dim0 = b, dim1 = l,
                 cells = (let wide = map (\<lambda>r. if dim1 a = l then r else concat (replicate l r)) (cells a)
                          in if dim0 a = b then wide else concat (replicate b wide)) \<rparr>
      else Inl (ValueError msg_broadcast))"

text \<open>
  \<^verbatim>\<open>jnp.argmax\<close> along one row: the position of the first occurrence of the maximum; an
  empty row raises.
\<close>

fun argmax_from :: "nat \<Rightarrow> int \<Rightarrow> nat \<Rightarrow> int list \<Rightarrow> nat" where
  "argmax_from best_i best_v i [] = best_i"
| "argmax_from best_i best_v i (x # xs) =
     (if best_v < x then argmax_from i x (Suc i) xs else argmax_from best_i best_v (Suc i) xs)"

definition msg_argmax :: string where
  "msg_argmax = ''attempt to get argmax of an empty sequence''"

definition argmax_idx :: "int list \<Rightarrow> nat" where
  "argmax_idx xs = (case xs of [] \<Rightarrow> 0 | x # rest \<Rightarrow> argmax_from 0 x 1 rest)"

definition argmax :: "int list \<Rightarrow> error + nat" where
  "argmax xs = (if xs = [] then Inl (ValueError msg_argmax) else Inr (argmax_idx xs))"

text \<open>Running a list of fallible steps: the first error stops it.\<close>

fun collect :: "(error + 'a) list \<Rightarrow> error + 'a list" where
  "collect [] = Inr []"
| "collect (r # rs) =
     (case r of
        Inl e \<Rightarrow> Inl e
      | Inr x \<Rightarrow> (case collect rs of Inl e \<Rightarrow> Inl e | Inr xs \<Rightarrow> Inr (x # xs)))"

text \<open>
  Reading one position of an axis the way a gather does: a negative index counts from
  the end and an index outside the axis is clamped to it. An axis of length 0 has no
  position to read, which the model reports as an \<open>IndexError\<close>.
\<close>

definition take_clamped :: "'a list \<Rightarrow> int \<Rightarrow> error + 'a" where
  "take_clamped xs i =
     (if xs = [] then Inl IndexError
      else let n = int (length xs); j = (if i < 0 then i + n else i)
           in Inr (xs ! nat (max 0 (min (n - 1) j))))"

subsection \<open>Collaborators\<close>

text \<open>
  The execution modes of \<^verbatim>\<open>common_types\<close>. The source names \<^verbatim>\<open>MODE_TRAIN\<close> and
  \<^verbatim>\<open>MODE_DECODE\<close>; any other member of \<^verbatim>\<open>RUNTIME_MODE_TYPES\<close> a caller passes is kept by
  its name.
\<close>

datatype runtime_mode = MODE_TRAIN | MODE_DECODE | MODE_OTHER string

text \<open>
  The components this module wires together and does not define: the embedding table,
  \<^verbatim>\<open>MaskInfo\<close>, the normalisations, \<^verbatim>\<open>UnifiedAttention\<close>, the MLP's tensor arithmetic, the
  addition of tensors and the heads' projections. Each is a parameter; a layer's
  components take the layer's index. \<^verbatim>\<open>checkpoint_name\<close> and \<^verbatim>\<open>apply_logical_sharding\<close> return
  the tensor they are given and are left out.
  \<open>'e\<close> is a hidden vector, \<open>'mi\<close> a mask info, \<open>'v\<close> a cache view, \<open>'w\<close> an attention
  weight, \<open>'md\<close> the cache metadata, \<open>'l\<close> a vector of logits.
\<close>

record ('e, 'mi, 'v, 'w, 'md, 'l) externals =
  embed_tokens :: "int \<Rightarrow> 'e"
  dynamic_init :: "'mi option \<Rightarrow> int arr2 option \<Rightarrow> 'e arr2 \<Rightarrow> bool arr2 option \<Rightarrow> 'mi"
  q_segment_ids :: "'mi \<Rightarrow> int arr2"
  input_layernorm :: "nat \<Rightarrow> 'e arr2 \<Rightarrow> 'e arr2"
  self_attn :: "nat \<Rightarrow> 'e arr2 \<Rightarrow> 'mi \<Rightarrow> int arr2 \<Rightarrow> runtime_mode \<Rightarrow> 'v option \<Rightarrow> 'md option
                  \<Rightarrow> bool option \<Rightarrow> 'e arr2 \<times> 'w option \<times> 'v option"
  post_attention_layernorm :: "nat \<Rightarrow> 'e arr2 \<Rightarrow> 'e arr2"
  mlp :: "nat \<Rightarrow> 'e arr2 \<Rightarrow> 'e arr2"
  block_wise_ffn :: "('e arr2 \<Rightarrow> 'e arr2) \<Rightarrow> 'e arr2 \<Rightarrow> int \<Rightarrow> 'e arr2"
  tensor_add :: "'e arr2 \<Rightarrow> 'e arr2 \<Rightarrow> 'e arr2"
  final_norm :: "'e arr2 \<Rightarrow> 'e arr2"
  lm_head :: "'e \<Rightarrow> 'l"
  score :: "'e \<Rightarrow> 'l"

text \<open>
  A cache is an object the caller and the model share: the model writes into the one it
  is given. So caches live in a store, a cache is referred to by its address, and a
  fresh one is put at the next free address. A cache holds one view per layer, \<^verbatim>\<open>None\<close>
  in an empty cache (\<^verbatim>\<open>TransformerCache.init_empty\<close>).
\<close>

type_synonym 'v cache = "'v option list"

record 'v store =
  objects :: "nat \<Rightarrow> 'v cache"
  next_addr :: nat

definition init_empty :: "nat \<Rightarrow> 'v cache" where
  "init_empty n = replicate n None"

definition alloc :: "'v store \<Rightarrow> 'v cache \<Rightarrow> nat \<times> 'v store" where
  "alloc st c = (next_addr st, \<lparr> objects = (objects st)(next_addr st := c), next_addr = Suc (next_addr st) \<rparr>)"


subsection \<open>The decoder layer\<close>

record ('e, 'w, 'v) DecoderLayerOutput =
  dlo_hidden_states :: "'e arr2"
  dlo_attention_weight :: "'w option"
  dlo_cache_view :: "'v option"

text \<open>\<^verbatim>\<open>SeedOssDecoderLayer.__call__\<close> of the layer with index \<open>idx\<close>.\<close>

definition SeedOssDecoderLayer_call ::
  "('e, 'mi, 'v, 'w, 'md, 'l) externals \<Rightarrow> SeedOssConfig \<Rightarrow> nat \<Rightarrow> 'e arr2 \<Rightarrow> 'mi \<Rightarrow> int arr2
     \<Rightarrow> runtime_mode \<Rightarrow> 'v option \<Rightarrow> 'md option \<Rightarrow> bool option \<Rightarrow> ('e, 'w, 'v) DecoderLayerOutput" where
  "SeedOssDecoderLayer_call env cfg idx hidden minfo pos md_run view meta want_attn =
     (let residual = hidden;
          attn_outputs = self_attn env idx (input_layernorm env idx hidden) minfo pos md_run view meta want_attn;
          hidden1 = tensor_add env (fst attn_outputs) residual;
          ffn_input = post_attention_layernorm env idx hidden1;
          ffn_output = (if use_scan_mlp cfg
                        then block_wise_ffn env (mlp env idx) ffn_input (scan_mlp_chunk_size cfg)
                        else mlp env idx ffn_input);
          hidden2 = tensor_add env hidden1 ffn_output
      in \<lparr> dlo_hidden_states = hidden2,
           dlo_attention_weight = fst (snd attn_outputs),
           dlo_cache_view = snd (snd attn_outputs) \<rparr>)"

subsection \<open>The base model\<close>

record ('e, 'mi, 'md) forward_call =
  input_ids :: "int arr2 option"
  inputs_embeds :: "'e arr2 option"
  attention_mask :: "bool arr2 option"
  mask_info :: "'mi option"
  position_ids :: "int arr2 option"
  mode :: "runtime_mode option"
  past_key_values :: "nat option"
  cache_metadata :: "'md option"
  output_attentions :: "bool option"
  output_hidden_states :: "bool option"

record ('e, 'w) BaseModelOutput =
  bmo_last_hidden_state :: "'e arr2"
  bmo_hidden_states :: "'e arr2 list option"
  bmo_attentions :: "'w option list option"
  bmo_past_key_values :: nat

text \<open>The truth value of a \<^verbatim>\<open>bool | None\<close> flag.\<close>

definition truthy :: "bool option \<Rightarrow> bool" where
  "truthy b = (b = Some True)"

definition msg_ids_embeds :: string where
  "msg_ids_embeds = ''You cannot specify both input_ids and inputs_embeds at the same time, and must specify either one.''"

definition msg_max_position :: string where
  "msg_max_position = ''Maximum Position Embedding Reached !''"

text \<open>
  Lines 370 to 373: the position ids from the segment ids of the mask info. The
  running sum is taken over unbounded integers; the result is cast to 32 bits.
\<close>

definition derive_position_ids :: "int arr2 \<Rightarrow> nat \<Rightarrow> nat \<Rightarrow> error + int arr2" where
  "derive_position_ids seg batch_size sequence_length =
     (case broadcast_to
             \<lparr> dim0 = dim0 seg, dim1 = dim1 seg,
               cells = map (\<lambda>r. map (\<lambda>x. max 0 (x - 1)) (cumsum r)) (cells seg) \<rparr>
             batch_size sequence_length of
        Inl e \<Rightarrow> Inl e
      | Inr p \<Rightarrow> Inr (map_arr2 astype_i4 p))"

text \<open>Lines 369 to 373: the position ids the layers are given.\<close>

definition call_position_ids ::
  "('e, 'mi, 'v, 'w, 'md, 'l) externals \<Rightarrow> ('e, 'mi, 'md) forward_call \<Rightarrow> 'e arr2 \<Rightarrow> error + int arr2" where
  "call_position_ids env a embeds =
     (case position_ids a of
        Some p \<Rightarrow> Inr p
      | None \<Rightarrow>
          derive_position_ids
            (q_segment_ids env (dynamic_init env (mask_info a) (input_ids a) embeds (attention_mask a)))
            (dim0 embeds) (dim1 embeds))"

text \<open>Lines 377 to 382: the execution mode.\<close>

definition infer_mode :: "runtime_mode option \<Rightarrow> nat \<Rightarrow> nat option \<Rightarrow> runtime_mode" where
  "infer_mode given sequence_length cache_ref =
     (case given of
        Some m \<Rightarrow> m
      | None \<Rightarrow> if sequence_length = 1 \<and> cache_ref \<noteq> None then MODE_DECODE else MODE_TRAIN)"

text \<open>
  Lines 396 to 415: the loop over the layers. Its state is the hidden states, the two
  optional traces and the cache being written. \<^verbatim>\<open>past_key_values.views[layer_idx]\<close> raises
  outside the views. The traces are tuples exactly when their flag is set, so appending
  to one never meets \<^verbatim>\<open>None\<close>.
\<close>

fun run_layers ::
  "('e, 'mi, 'v, 'w, 'md, 'l) externals \<Rightarrow> SeedOssConfig \<Rightarrow> 'mi \<Rightarrow> int arr2 \<Rightarrow> runtime_mode
     \<Rightarrow> 'md option \<Rightarrow> bool option \<Rightarrow> bool option \<Rightarrow> nat list
     \<Rightarrow> 'e arr2 \<times> 'e arr2 list option \<times> 'w option list option \<times> 'v cache
     \<Rightarrow> error + 'e arr2 \<times> 'e arr2 list option \<times> 'w option list option \<times> 'v cache" where
  "run_layers env cfg minfo pos md_run meta want_attn want_hidden [] state = Inr state"
| "run_layers env cfg minfo pos md_run meta want_attn want_hidden (layer_idx # rest)
       (hidden, all_hidden, all_attn, kv) =
     (let all_hidden1 = (if truthy want_hidden then map_option (\<lambda>t. t @ [hidden]) all_hidden
                         else all_hidden)
      in if length kv \<le> layer_idx then Inl IndexError
         else
           (let layer_outputs = SeedOssDecoderLayer_call env cfg layer_idx hidden minfo pos md_run
                                  (kv ! layer_idx) meta want_attn;
                all_attn1 = (if truthy want_attn
                             then map_option (\<lambda>t. t @ [dlo_attention_weight layer_outputs]) all_attn
                             else all_attn)
            in run_layers env cfg minfo pos md_run meta want_attn want_hidden rest
                 (dlo_hidden_states layer_outputs, all_hidden1, all_attn1,
                  kv[layer_idx := dlo_cache_view layer_outputs])))"

text \<open>
  Lines 353 and 354: the embeddings of the call. With neither argument given the
  source would look up \<^verbatim>\<open>astype\<close> on \<^verbatim>\<open>None\<close>.
\<close>

definition call_embeds ::
  "('e, 'mi, 'v, 'w, 'md, 'l) externals \<Rightarrow> ('e, 'mi, 'md) forward_call \<Rightarrow> error + 'e arr2" where
  "call_embeds env a =
     (case inputs_embeds a of
        Some e \<Rightarrow> Inr e
      | None \<Rightarrow>
          (case input_ids a of
             None \<Rightarrow> Inl AttributeError
           | Some ids \<Rightarrow> Inr (map_arr2 (\<lambda>t. embed_tokens env (astype_i4 t)) ids)))"

text \<open>
  \<^verbatim>\<open>SeedOssModel.__call__\<close>. The model has \<open>nat (num_hidden_layers cfg)\<close> layers (line
  324). The result is the output record and the store after the call; the store an
  exception leaves behind is not modelled.
\<close>

definition SeedOssModel_call ::
  "('e, 'mi, 'v, 'w, 'md, 'l) externals \<Rightarrow> SeedOssConfig \<Rightarrow> ('e, 'mi, 'md) forward_call \<Rightarrow> 'v store
     \<Rightarrow> error + ('e, 'w) BaseModelOutput \<times> 'v store" where
  "SeedOssModel_call env cfg a st =
     (if (input_ids a = None) \<noteq> (inputs_embeds a \<noteq> None) then Inl (ValueError msg_ids_embeds)
      else case call_embeds env a of
        Inl e \<Rightarrow> Inl e
      | Inr embeds \<Rightarrow>
          (let batch_size = dim0 embeds; sequence_length = dim1 embeds
           in if \<not> int sequence_length \<le> max_position_embeddings cfg
              then Inl (AssertionError msg_max_position)
              else
                (let minfo = dynamic_init env (mask_info a) (input_ids a) embeds (attention_mask a)
                 in case call_position_ids env a embeds of
                      Inl e \<Rightarrow> Inl e
                    | Inr pos \<Rightarrow>
                        (let md_run = infer_mode (mode a) sequence_length (past_key_values a);
                             n_layers = nat (num_hidden_layers cfg);
                             ref_st = (case past_key_values a of
                                         None \<Rightarrow> alloc st (init_empty n_layers)
                                       | Some r \<Rightarrow> (r, st));
                             all_attentions = (if truthy (output_attentions a) then Some [] else None);
                             all_hidden_states = (if truthy (output_hidden_states a) then Some [] else None)
                         in case run_layers env cfg minfo pos md_run (cache_metadata a)
                                   (output_attentions a) (output_hidden_states a) [0..<n_layers]
                                   (embeds, all_hidden_states, all_attentions,
                                    objects (snd ref_st) (fst ref_st)) of
                              Inl e \<Rightarrow> Inl e
                            | Inr (hidden, all_hidden, all_attn, kv) \<Rightarrow>
                                (let normed = final_norm env hidden;
                                     all_hidden1 = (if truthy (output_hidden_states a)
                                                    then map_option (\<lambda>t. t @ [normed]) all_hidden
                                                    else all_hidden)
                                 in Inr (\<lparr> bmo_last_hidden_state = normed,
                                            bmo_hidden_states = all_hidden1,
                                            bmo_attentions = all_attn,
                                            bmo_past_key_values = fst ref_st \<rparr>,
                                         \<lparr> objects = (objects (snd ref_st))(fst ref_st := kv),
                                           next_addr = next_addr (snd ref_st) \<rparr>))))))"

subsection \<open>The heads\<close>

record ('e, 'w, 'l) CausalLMOutput =
  clm_logits :: "'l arr2 option"
  clm_last_hidden_state :: "'e arr2"
  clm_hidden_states :: "'e arr2 list option"
  clm_past_key_values :: nat
  clm_attentions :: "'w option list option"

text \<open>\<^verbatim>\<open>SeedOssForCausalLM.__call__\<close>.\<close>

definition SeedOssForCausalLM_call ::
  "('e, 'mi, 'v, 'w, 'md, 'l) externals \<Rightarrow> SeedOssConfig \<Rightarrow> ('e, 'mi, 'md) forward_call \<Rightarrow> bool
     \<Rightarrow> 'v store \<Rightarrow> error + ('e, 'w, 'l) CausalLMOutput \<times> 'v store" where
  "SeedOssForCausalLM_call env cfg a apply_lm_head st =
     (case SeedOssModel_call env cfg a st of
        Inl e \<Rightarrow> Inl e
      | Inr (outputs, st1) \<Rightarrow>
          Inr (\<lparr> clm_logits = (if apply_lm_head
                                then Some (map_arr2 (lm_head env) (bmo_last_hidden_state outputs))
                                else None),
                 clm_last_hidden_state = bmo_last_hidden_state outputs,
                 clm_hidden_states = bmo_hidden_states outputs,
                 clm_past_key_values = bmo_past_key_values outputs,
                 clm_attentions = bmo_attentions outputs \<rparr>, st1))"

record ('e, 'w, 'l) SequenceClassifierOutput =
  sco_logits :: "'l list"
  sco_hidden_states :: "'e arr2 list option"
  sco_attentions :: "'w option list option"
  sco_past_key_values :: "nat option"

definition msg_no_pad :: string where
  "msg_no_pad = ''Cannot handle batch sizes > 1 if no padding token is defined.''"

text \<open>
  The value of \<^verbatim>\<open>sequence_lengths\<close> (lines 595 to 602): the scalar \<open>-1\<close>, or one index
  per sequence. \<open>pad_positions\<close> is \<^verbatim>\<open>jnp.equal(input_ids, pad_token_id).astype("i4")\<close> on one
  row. The indices lie between 0 and the sequence length, so no integer width of the
  array library changes them.
\<close>

datatype pool_index = Scalar int | PerRow "int list"

definition pad_positions :: "int \<Rightarrow> int list \<Rightarrow> int list" where
  "pad_positions pad row = map (\<lambda>t. if t = pad then 1 else 0) row"

definition sequence_lengths :: "int option \<Rightarrow> int arr2 option \<Rightarrow> error + pool_index" where
  "sequence_lengths pad ids_arg =
     (case pad of
        None \<Rightarrow> Inr (Scalar (- 1))
      | Some p \<Rightarrow>
          (case ids_arg of
             Some ids \<Rightarrow>
               (if dim1 ids = 0 then Inl (ValueError msg_argmax)
                else case collect (map (\<lambda>row. argmax (pad_positions p row)) (cells ids)) of
                       Inl e \<Rightarrow> Inl e
                     | Inr firsts \<Rightarrow>
                         Inr (PerRow (map (\<lambda>k. (int k - 1) mod int (dim1 ids)) firsts)))
           | None \<Rightarrow> Inr (Scalar (- 1))))"

text \<open>
  Line 604: \<^verbatim>\<open>logits[jnp.arange(batch_size), sequence_lengths]\<close>, one vector of logits per
  sequence; a scalar index is used for every sequence.
\<close>

definition pool :: "'l arr2 \<Rightarrow> nat \<Rightarrow> pool_index \<Rightarrow> error + 'l list" where
  "pool logits batch_size idx =
     collect
       (map (\<lambda>(b, i). case take_clamped (cells logits) (int b) of
                         Inl e \<Rightarrow> Inl e
                       | Inr row \<Rightarrow> take_clamped row i)
            (zip [0..<batch_size]
                 (case idx of Scalar i \<Rightarrow> replicate batch_size i | PerRow is \<Rightarrow> is)))"

text \<open>Lines 588 to 591: the batch size of the call.\<close>

definition call_batch_size :: "('e, 'mi, 'md) forward_call \<Rightarrow> error + nat" where
  "call_batch_size a =
     (case input_ids a of
        Some ids \<Rightarrow> Inr (dim0 ids)
      | None \<Rightarrow> (case inputs_embeds a of Some e \<Rightarrow> Inr (dim0 e) | None \<Rightarrow> Inl AttributeError))"

text \<open>\<^verbatim>\<open>SeedOssForSequenceClassification.__call__\<close>.\<close>

definition SeedOssForSequenceClassification_call ::
  "('e, 'mi, 'v, 'w, 'md, 'l) externals \<Rightarrow> SeedOssConfig \<Rightarrow> ('e, 'mi, 'md) forward_call
     \<Rightarrow> 'v store \<Rightarrow> error + ('e, 'w, 'l) SequenceClassifierOutput \<times> 'v store" where
  "SeedOssForSequenceClassification_call env cfg a st =
     (case SeedOssModel_call env cfg a st of
        Inl e \<Rightarrow> Inl e
      | Inr (transformer_outputs, st1) \<Rightarrow>
          (let logits = map_arr2 (score env) (bmo_last_hidden_state transformer_outputs)
           in case call_batch_size a of
                Inl e \<Rightarrow> Inl e
              | Inr batch_size \<Rightarrow>
                  (if pad_token_id cfg = None \<and> batch_size \<noteq> 1 then Inl (ValueError msg_no_pad)
                   else (case sequence_lengths (pad_token_id cfg) (input_ids a) of
                           Inl e \<Rightarrow> Inl e
                         | Inr idx \<Rightarrow>
                             (case pool logits batch_size idx of
                                Inl e \<Rightarrow> Inl e
                              | Inr pooled_logits \<Rightarrow>
                                  Inr (\<lparr> sco_logits = pooled_logits,
                                         sco_hidden_states = bmo_hidden_states transformer_outputs,
                                         sco_attentions = bmo_attentions transformer_outputs,
                                         sco_past_key_values = past_key_values a \<rparr>, st1))))))"


subsection \<open>A plain instance\<close>

text \<open>
  An instance of the collaborators on which the calls can be run: tokens are their own
  embeddings, the mask info is its segment ids (those given, else the attention mask as
  0 and 1, else 1 for every token), the normalisations, the MLP and the projections
  change nothing, and the attention returns its input and leaves in the cache view the
  mode it was run in.
\<close>

definition plain_externals :: "(int, int arr2, runtime_mode, unit, unit, int) externals" where
  "plain_externals =
     \<lparr> embed_tokens = (\<lambda>t. t),
       dynamic_init = (\<lambda>given ids embeds mask.
          case given of
            Some m \<Rightarrow> m
          | None \<Rightarrow> (case mask of
                       Some m \<Rightarrow> map_arr2 (\<lambda>b. if b then 1 else 0) m
                     | None \<Rightarrow> ones (dim0 embeds) (dim1 embeds))),
       q_segment_ids = (\<lambda>m. m),
       input_layernorm = (\<lambda>i x. x),
       self_attn = (\<lambda>i x minfo pos md_run view meta want_attn. (x, None, Some md_run)),
       post_attention_layernorm = (\<lambda>i x. x),
       mlp = (\<lambda>i x. x),
       block_wise_ffn = (\<lambda>f x n. f x),
       tensor_add = (\<lambda>x y. x),
       final_norm = (\<lambda>x. x),
       lm_head = (\<lambda>e. e),
       score = (\<lambda>e. e) \<rparr>"

text \<open>A configuration of two layers, at most four positions and the padding token 1.\<close>

definition tiny_config :: SeedOssConfig where
  "tiny_config =
     \<lparr> hidden_size = 8, num_hidden_layers = 2, num_attention_heads = 2,
       num_key_value_heads = 2, max_position_embeddings = 4, pad_token_id = Some 1,
       layer_types = [''full_attention'', ''full_attention''], head_dim = 4,
       rope_parameters = None, rope_theta = PFloat 10000, rope_scaling = PNone,
       use_scan_mlp = False, scan_mlp_chunk_size = 1024 \<rparr>"

text \<open>A call that passes nothing, and the calls that pass token ids or embeddings only.\<close>

definition bare_call :: "(int, int arr2, unit) forward_call" where
  "bare_call =
     \<lparr> input_ids = None, inputs_embeds = None, attention_mask = None, mask_info = None,
       position_ids = None, mode = None, past_key_values = None, cache_metadata = None,
       output_attentions = None, output_hidden_states = None \<rparr>"

definition ids_call :: "int list list \<Rightarrow> (int, int arr2, unit) forward_call" where
  "ids_call rows =
     bare_call\<lparr> input_ids := Some \<lparr> dim0 = length rows, dim1 = (case rows of [] \<Rightarrow> 0 | r # rest \<Rightarrow> length r), cells = rows \<rparr> \<rparr>"

definition embeds_call :: "int list list \<Rightarrow> (int, int arr2, unit) forward_call" where
  "embeds_call rows =
     bare_call\<lparr> inputs_embeds := Some \<lparr> dim0 = length rows, dim1 = (case rows of [] \<Rightarrow> 0 | r # rest \<Rightarrow> length r), cells = rows \<rparr> \<rparr>"

text \<open>A store with no cache, and a store whose address 0 holds an empty cache of two views.\<close>

definition no_cache :: "runtime_mode store" where
  "no_cache = \<lparr> objects = (\<lambda>r. []), next_addr = 0 \<rparr>"

definition one_empty_cache :: "runtime_mode store" where
  "one_empty_cache = snd (alloc no_cache (init_empty 2))"


section \<open>Properties of the configuration\<close>

text \<open>What a successful construction stores, and when a construction fails.\<close>

lemma init_Inr:
  assumes "SeedOssConfig_init c kw = Inr cfg"
  shows "hidden_size cfg = arg_or 4096 (arg_hidden_size c)"
    and "num_attention_heads cfg = arg_or 80 (arg_num_attention_heads c)"
    and "num_hidden_layers cfg = arg_or 64 (arg_num_hidden_layers c)"
    and "Inr (head_dim cfg) =
           (case arg_or (Some 128) (arg_head_dim c) of
              Some h \<Rightarrow> Inr h
            | None \<Rightarrow> floordiv (arg_or 4096 (arg_hidden_size c))
                       (arg_or 80 (arg_num_attention_heads c)))"
    and "layer_types cfg =
           resolve_layer_types (arg_or None (arg_layer_types c)) (arg_or 64 (arg_num_hidden_layers c))"
    and "rope_theta cfg =
           resolve_rope_theta (arg_or None (arg_rope_parameters c))
             (arg_or PNone (arg_rope_theta c)) (dict_get kw ''rope_theta'')"
  using assms unfolding SeedOssConfig_init_def Let_def
  by (auto split: sum.splits)





text \<open>
  C4, as the code has it. A non-empty list of layer types is stored as it is passed,
  whatever its length. When the list is left out, \<^verbatim>\<open>None\<close> or empty, the stored list is
  \<^verbatim>\<open>"full_attention"\<close> once per layer, and so has \<^verbatim>\<open>num_hidden_layers\<close> entries when that
  number is not negative.
\<close>

theorem layer_types_resolved:
  "SeedOssConfig_init c kw = Inr cfg \<Longrightarrow>
     layer_types cfg =
       (case arg_layer_types c of
          Passed (Some (t # ts)) \<Rightarrow> t # ts
        | _ \<Rightarrow> replicate (nat (num_hidden_layers cfg)) ''full_attention'') \<and>
     (0 \<le> num_hidden_layers cfg \<and>
      (arg_layer_types c = Omitted \<or> arg_layer_types c = Passed None \<or> arg_layer_types c = Passed (Some []))
        \<longrightarrow> int (length (layer_types cfg)) = num_hidden_layers cfg)"
  by (auto simp: init_Inr(3,5) resolve_layer_types_def arg_or_def
           split: arg.splits option.splits list.splits)

text \<open>With three layers and no layer types passed, three entries are stored.\<close>

theorem layer_types_resolved_witness:
  "(case SeedOssConfig_init (no_args\<lparr>arg_num_hidden_layers := Passed 3\<rparr>) [] of
      Inl e \<Rightarrow> False
    | Inr cfg \<Rightarrow> layer_types cfg = [''full_attention'', ''full_attention'', ''full_attention''] \<and>
                 int (length (layer_types cfg)) = num_hidden_layers cfg)"
proof -
  obtain cfg where ok: "SeedOssConfig_init (no_args\<lparr>arg_num_hidden_layers := Passed 3\<rparr>) [] = Inr cfg"
    by (simp add: SeedOssConfig_init_def no_args_def Let_def arg_or_def)
  have n: "num_hidden_layers cfg = 3"
    using init_Inr(3) [OF ok] by (simp add: no_args_def arg_or_def)
  have "replicate (nat 3) ''full_attention'' = [''full_attention'', ''full_attention'', ''full_attention'']"
    by (simp add: numeral_3_eq_3)
  with layer_types_resolved [OF ok] n ok show ?thesis
    by (simp add: no_args_def)
qed

text \<open>
  C4 as stated fails when a list is passed: \<^verbatim>\<open>SeedOssConfig(layer_types=["full_attention"])\<close>
  has the default 64 layers and stores the one entry it was given.
\<close>

theorem layer_types_length_counterexample:
  "(case SeedOssConfig_init (no_args\<lparr>arg_layer_types := Passed (Some [''full_attention''])\<rparr>) [] of
      Inl e \<Rightarrow> False
    | Inr cfg \<Rightarrow> length (layer_types cfg) = 1 \<and> num_hidden_layers cfg = 64)"
  by (simp add: SeedOssConfig_init_def no_args_def Let_def arg_or_def resolve_layer_types_def)

text \<open>
  C6, as the code has it. The stored rotary base is, in this order: the value under
  \<^verbatim>\<open>"rope_theta"\<close> in \<^verbatim>\<open>rope_parameters\<close> when that dictionary is given and the value is not
  \<^verbatim>\<open>None\<close>; the \<^verbatim>\<open>rope_theta\<close> parameter when it is not \<^verbatim>\<open>None\<close>; the \<^verbatim>\<open>rope_theta\<close> entry of the
  extra keyword arguments when it is not \<^verbatim>\<open>None\<close>; and 10000.0. An entry of
  \<^verbatim>\<open>rope_parameters\<close> whose value is \<^verbatim>\<open>None\<close> counts as missing.
\<close>

theorem rope_theta_resolved:
  "SeedOssConfig_init c kw = Inr cfg \<Longrightarrow>
     rope_theta cfg =
       (let from_params = (case arg_or None (arg_rope_parameters c) of
                             None \<Rightarrow> PNone | Some d \<Rightarrow> dict_get d ''rope_theta'')
        in if from_params \<noteq> PNone then from_params
           else if arg_or PNone (arg_rope_theta c) \<noteq> PNone then arg_or PNone (arg_rope_theta c)
           else if dict_get kw ''rope_theta'' \<noteq> PNone then dict_get kw ''rope_theta''
           else PFloat 10000)"
  by (simp add: init_Inr(6) resolve_rope_theta_def Let_def split: option.splits)

text \<open>With all three sources given, the value of \<^verbatim>\<open>rope_parameters\<close> is stored.\<close>

theorem rope_theta_resolved_witness:
  "(case SeedOssConfig_init
           (no_args\<lparr>arg_rope_parameters := Passed (Some [(''rope_theta'', PFloat 500000)]),
                    arg_rope_theta := Passed (PFloat 20000)\<rparr>)
           [(''rope_theta'', PFloat 30000)] of
      Inl e \<Rightarrow> False
    | Inr cfg \<Rightarrow> rope_theta cfg = PFloat 500000)"
proof -
  obtain cfg where ok:
    "SeedOssConfig_init
       (no_args\<lparr>arg_rope_parameters := Passed (Some [(''rope_theta'', PFloat 500000)]),
                arg_rope_theta := Passed (PFloat 20000)\<rparr>)
       [(''rope_theta'', PFloat 30000)] = Inr cfg"
    by (simp add: SeedOssConfig_init_def no_args_def Let_def arg_or_def)
  from rope_theta_resolved [OF ok] have "rope_theta cfg = PFloat 500000"
    by (simp add: no_args_def arg_or_def dict_get_def)
  with ok show ?thesis by simp
qed

text \<open>
  C6 as stated fails when the key is present with the value \<^verbatim>\<open>None\<close>:
  \<^verbatim>\<open>SeedOssConfig(rope_parameters={"rope_theta": None}, rope_theta=20000.0)\<close> stores the
  parameter, not the dictionary's entry.
\<close>

theorem rope_theta_none_entry_counterexample:
  "map_of [(''rope_theta'', PNone)] ''rope_theta'' = Some PNone \<and>
   (case SeedOssConfig_init
           (no_args\<lparr>arg_rope_parameters := Passed (Some [(''rope_theta'', PNone)]),
                    arg_rope_theta := Passed (PFloat 20000)\<rparr>) [] of
      Inl e \<Rightarrow> False
    | Inr cfg \<Rightarrow> rope_theta cfg = PFloat 20000)"
  by (simp add: SeedOssConfig_init_def no_args_def Let_def arg_or_def resolve_rope_theta_def
                dict_get_def)


section \<open>Properties of the base model\<close>

text \<open>The errors the steps after the validation of the arguments can raise.\<close>

lemma run_layers_error:
  "run_layers env cfg minfo pos md_run meta wa wh idxs state = Inl e \<Longrightarrow> e = IndexError"
proof (induction idxs arbitrary: state)
  case Nil
  then show ?case by simp
next
  case (Cons i rest)
  obtain h ah aa kv where s: "state = (h, ah, aa, kv)" by (cases state) auto
  from Cons.prems show ?case
    unfolding s by (auto simp: Let_def split: if_splits dest: Cons.IH)
qed

lemma derive_position_ids_error:
  "derive_position_ids seg b l = Inl e \<Longrightarrow> e = ValueError msg_broadcast"
  by (auto simp: derive_position_ids_def broadcast_to_def fits_def split: sum.splits if_splits)

lemma call_position_ids_error:
  "call_position_ids env a embeds = Inl e \<Longrightarrow> e = ValueError msg_broadcast"
  by (auto simp: call_position_ids_def split: option.splits dest: derive_position_ids_error)

lemma msg_distinct: "msg_broadcast \<noteq> msg_ids_embeds"
  by (simp add: msg_broadcast_def msg_ids_embeds_def)

lemma call_embeds_error:
  "call_embeds env a = Inl e \<Longrightarrow> e = AttributeError"
  by (auto simp: call_embeds_def split: option.splits)

text \<open>Once exactly one of the two inputs is given, the first check cannot fail.\<close>

lemma model_call_valid_args:
  assumes "(input_ids a = None) = (inputs_embeds a \<noteq> None)"
  shows "SeedOssModel_call env cfg a st \<noteq> Inl (ValueError msg_ids_embeds)"
proof
  assume bad: "SeedOssModel_call env cfg a st = Inl (ValueError msg_ids_embeds)"
  show False
  proof (cases "call_embeds env a")
    case (Inl e)
    with bad assms call_embeds_error [OF Inl] show False
      by (simp add: SeedOssModel_call_def)
  next
    case (Inr embeds)
    show False
    proof (cases "int (dim1 embeds) \<le> max_position_embeddings cfg")
      case False
      with bad assms Inr show False by (simp add: SeedOssModel_call_def Let_def)
    next
      case True
      show False
      proof (cases "call_position_ids env a embeds")
        case (Inl e)
        with bad assms Inr True call_position_ids_error [OF Inl] msg_distinct show False
          by (simp add: SeedOssModel_call_def Let_def)
      next
        case pos: (Inr pos)
        from bad assms Inr True pos show False
          by (auto simp: SeedOssModel_call_def Let_def split: sum.splits dest: run_layers_error)
      qed
    qed
  qed
qed

text \<open>Position ids are found whenever they are given or the segment ids fit the batch.\<close>

lemma call_position_ids_Inr:
  assumes "position_ids a = None \<longrightarrow>
             fits (q_segment_ids env (dynamic_init env (mask_info a) (input_ids a) embeds (attention_mask a)))
               (dim0 embeds) (dim1 embeds)"
  shows "\<exists>pos. call_position_ids env a embeds = Inr pos"
  using assms
  by (cases "position_ids a")
     (simp_all add: call_position_ids_def derive_position_ids_def broadcast_to_def fits_def)

lemma model_call_no_ValueError:
  assumes one: "(input_ids a = None) \<noteq> (inputs_embeds a = None)"
    and e: "call_embeds env a = Inr embeds"
    and seg: "position_ids a = None \<longrightarrow>
             fits (q_segment_ids env (dynamic_init env (mask_info a) (input_ids a) embeds (attention_mask a)))
               (dim0 embeds) (dim1 embeds)"
  shows "SeedOssModel_call env cfg a st \<noteq> Inl (ValueError msg)"
proof -
  from one have v: "(input_ids a = None) = (inputs_embeds a \<noteq> None)" by auto
  from call_position_ids_Inr [OF seg] obtain pos where p: "call_position_ids env a embeds = Inr pos"
    by blast
  show ?thesis
  proof (cases "int (dim1 embeds) \<le> max_position_embeddings cfg")
    case False
    with v e show ?thesis by (simp add: SeedOssModel_call_def Let_def)
  next
    case True
    with v e p show ?thesis
      by (auto simp: SeedOssModel_call_def Let_def split: sum.splits dest: run_layers_error)
  qed
qed

text \<open>
  C5. The call raises the \<^verbatim>\<open>ValueError\<close> of line 349 exactly when \<^verbatim>\<open>input_ids\<close> and
  \<^verbatim>\<open>inputs_embeds\<close> are both given or both missing; with exactly one of them given, no
  later step raises it. Such a call raises no \<^verbatim>\<open>ValueError\<close> at all when its position ids
  are given or the segment ids of the mask info fit the shape of the batch.
\<close>

theorem ids_embeds_validation:
  "(SeedOssModel_call env cfg a st = Inl (ValueError msg_ids_embeds) \<longleftrightarrow>
      (input_ids a = None) = (inputs_embeds a = None)) \<and>
   (\<forall>embeds msg.
      (input_ids a = None) \<noteq> (inputs_embeds a = None) \<and> call_embeds env a = Inr embeds \<and>
      (position_ids a = None \<longrightarrow>
         fits (q_segment_ids env (dynamic_init env (mask_info a) (input_ids a) embeds (attention_mask a)))
           (dim0 embeds) (dim1 embeds))
      \<longrightarrow> SeedOssModel_call env cfg a st \<noteq> Inl (ValueError msg))"
proof (intro conjI allI impI)
  show "SeedOssModel_call env cfg a st = Inl (ValueError msg_ids_embeds) \<longleftrightarrow>
          (input_ids a = None) = (inputs_embeds a = None)"
  proof
    assume bad: "SeedOssModel_call env cfg a st = Inl (ValueError msg_ids_embeds)"
    show "(input_ids a = None) = (inputs_embeds a = None)"
    proof (rule ccontr)
      assume "\<not> ((input_ids a = None) = (inputs_embeds a = None))"
      then have "(input_ids a = None) = (inputs_embeds a \<noteq> None)" by auto
      from model_call_valid_args [OF this] bad show False by blast
    qed
  next
    assume "(input_ids a = None) = (inputs_embeds a = None)"
    then show "SeedOssModel_call env cfg a st = Inl (ValueError msg_ids_embeds)"
      by (auto simp: SeedOssModel_call_def)
  qed
next
  fix embeds msg
  assume h: "(input_ids a = None) \<noteq> (inputs_embeds a = None) \<and> call_embeds env a = Inr embeds \<and>
      (position_ids a = None \<longrightarrow>
         fits (q_segment_ids env (dynamic_init env (mask_info a) (input_ids a) embeds (attention_mask a)))
           (dim0 embeds) (dim1 embeds))"
  then have one: "(input_ids a = None) \<noteq> (inputs_embeds a = None)"
    and e: "call_embeds env a = Inr embeds"
    and seg: "position_ids a = None \<longrightarrow>
         fits (q_segment_ids env (dynamic_init env (mask_info a) (input_ids a) embeds (attention_mask a)))
           (dim0 embeds) (dim1 embeds)"
    by simp_all
  show "SeedOssModel_call env cfg a st \<noteq> Inl (ValueError msg)"
    by (rule model_call_no_ValueError [OF one e seg])
qed

text \<open>
  C8. In a call that gives exactly one of \<^verbatim>\<open>input_ids\<close> and \<^verbatim>\<open>inputs_embeds\<close>, the sequence
  length is the second axis of the embeddings (of the token ids, when those are given).
  The call raises the assertion of line 357 when that length is greater than
  \<^verbatim>\<open>max_position_embeddings\<close>, and does not raise it when the length is at most that
  maximum, so not when the two are equal.
\<close>

theorem max_position_check:
  assumes "(input_ids a = None) \<noteq> (inputs_embeds a = None)"
  shows "\<exists>embeds. call_embeds env a = Inr embeds \<and>
           dim1 embeds = (case inputs_embeds a of
                            Some e \<Rightarrow> dim1 e
                          | None \<Rightarrow> (case input_ids a of Some ids \<Rightarrow> dim1 ids | None \<Rightarrow> 0)) \<and>
           (max_position_embeddings cfg < int (dim1 embeds) \<longrightarrow>
              SeedOssModel_call env cfg a st = Inl (AssertionError msg_max_position)) \<and>
           (int (dim1 embeds) \<le> max_position_embeddings cfg \<longrightarrow>
              SeedOssModel_call env cfg a st \<noteq> Inl (AssertionError msg_max_position))"
proof -
  from assms have v: "(input_ids a = None) = (inputs_embeds a \<noteq> None)" by auto
  from assms obtain embeds where e: "call_embeds env a = Inr embeds"
    by (auto simp: call_embeds_def split: option.splits)
  from e have len: "dim1 embeds = (case inputs_embeds a of
                            Some e \<Rightarrow> dim1 e
                          | None \<Rightarrow> (case input_ids a of Some ids \<Rightarrow> dim1 ids | None \<Rightarrow> 0))"
    by (auto simp: call_embeds_def map_arr2_def split: option.splits)
  have gt: "SeedOssModel_call env cfg a st = Inl (AssertionError msg_max_position)"
    if "max_position_embeddings cfg < int (dim1 embeds)"
    using that v e by (simp add: SeedOssModel_call_def Let_def)
  have le: "SeedOssModel_call env cfg a st \<noteq> Inl (AssertionError msg_max_position)"
    if le: "int (dim1 embeds) \<le> max_position_embeddings cfg"
  proof (cases "call_position_ids env a embeds")
    case (Inl er)
    with v e le call_position_ids_error [OF Inl] show ?thesis
      by (simp add: SeedOssModel_call_def Let_def)
  next
    case (Inr pos)
    with v e le show ?thesis
      by (auto simp: SeedOssModel_call_def Let_def split: sum.splits dest: run_layers_error)
  qed
  from e len gt le show ?thesis by blast
qed







section \<open>Properties of the classification head\<close>

text \<open>What a successful call of the head has computed.\<close>

lemma classification_call_Inr:
  assumes "SeedOssForSequenceClassification_call env cfg a st = Inr (out, st1)"
  shows "\<exists>tout b idx.
           SeedOssModel_call env cfg a st = Inr (tout, st1) \<and>
           call_batch_size a = Inr b \<and>
           sequence_lengths (pad_token_id cfg) (input_ids a) = Inr idx \<and>
           pool (map_arr2 (score env) (bmo_last_hidden_state tout)) b idx = Inr (sco_logits out) \<and>
           sco_past_key_values out = past_key_values a"
  using assms unfolding SeedOssForSequenceClassification_call_def Let_def
  by (auto split: sum.splits if_splits prod.splits)








lemma collect_map_Inr: "collect (map (\<lambda>x. Inr (f x)) xs) = Inr (map f xs)"
  by (induction xs) auto



text \<open>Pooling with the scalar index \<open>-1\<close> reads the last position of every sequence.\<close>

lemma take_clamped_in_range:
  "b < length xs \<Longrightarrow> take_clamped xs (int b) = Inr (xs ! b)"
  by (auto simp: take_clamped_def Let_def)

lemma take_clamped_last:
  "xs \<noteq> [] \<Longrightarrow> take_clamped xs (- 1) = Inr (last xs)"
  by (simp add: take_clamped_def Let_def last_conv_nth nat_diff_distrib')

lemma map_over_indices: "map (\<lambda>b. f (xs ! b)) [0..<length xs] = map f xs"
proof -
  have "map (\<lambda>b. f (xs ! b)) [0..<length xs] = map f (map ((!) xs) [0..<length xs])"
    by (simp add: comp_def)
  then show ?thesis by (simp only: map_nth)
qed

lemma pool_scalar_last:
  assumes "wf_arr2 lg" and "0 < dim1 lg"
  shows "pool lg (dim0 lg) (Scalar (- 1)) = Inr (map last (cells lg))"
proof -
  let ?g = "\<lambda>b. case take_clamped (cells lg) (int b) of
                    Inl e \<Rightarrow> Inl e
                  | Inr row \<Rightarrow> take_clamped row (- 1)"
  from assms have len: "length (cells lg) = dim0 lg"
    and ne: "\<And>row. row \<in> set (cells lg) \<Longrightarrow> row \<noteq> []"
    by (auto simp: wf_arr2_def list_all_iff)
  have step: "?g b = Inr (last (cells lg ! b))" if "b < dim0 lg" for b
    using that len ne [of "cells lg ! b"]
    by (simp add: take_clamped_in_range take_clamped_last)
  have "pool lg (dim0 lg) (Scalar (- 1)) = collect (map ?g [0..<dim0 lg])"
    by (simp add: pool_def zip_replicate2 comp_def)
  also have "map ?g [0..<dim0 lg] = map (\<lambda>b. Inr (last (cells lg ! b))) [0..<dim0 lg]"
    by (rule map_cong [OF refl]) (simp add: step)
  also have "collect (map (\<lambda>b. Inr (last (cells lg ! b))) [0..<dim0 lg]) =
               Inr (map (\<lambda>b. last (cells lg ! b)) [0..<dim0 lg])"
    by (rule collect_map_Inr)
  also have "map (\<lambda>b. last (cells lg ! b)) [0..<dim0 lg] = map last (cells lg)"
    using map_over_indices [of last "cells lg"] len by simp
  finally show ?thesis .
qed

text \<open>
  C10. In a call that gives \<^verbatim>\<open>inputs_embeds\<close> and no \<^verbatim>\<open>input_ids\<close>, whatever the padding
  token of the configuration, the pooling index is the scalar \<open>-1\<close>: a successful call
  returns the logits pooled with it, which for well-formed hidden states of the batch's
  size are the scores of the last position of every sequence.
\<close>

theorem embeds_pool_last:
  assumes "input_ids a = None"
    and "SeedOssForSequenceClassification_call env cfg a st = Inr (out, st1)"
  shows "sequence_lengths (pad_token_id cfg) (input_ids a) = Inr (Scalar (- 1)) \<and>
         (\<exists>tout e. SeedOssModel_call env cfg a st = Inr (tout, st1) \<and>
            inputs_embeds a = Some e \<and>
            pool (map_arr2 (score env) (bmo_last_hidden_state tout)) (dim0 e) (Scalar (- 1)) =
              Inr (sco_logits out) \<and>
            (wf_arr2 (bmo_last_hidden_state tout) \<and> dim0 (bmo_last_hidden_state tout) = dim0 e \<and>
             0 < dim1 (bmo_last_hidden_state tout) \<longrightarrow>
               sco_logits out = map (\<lambda>row. score env (last row)) (cells (bmo_last_hidden_state tout))))"
proof -
  have sl: "sequence_lengths (pad_token_id cfg) (input_ids a) = Inr (Scalar (- 1))"
    using assms(1) by (simp add: sequence_lengths_def split: option.splits)
  from classification_call_Inr [OF assms(2)] obtain tout b idx where
    m: "SeedOssModel_call env cfg a st = Inr (tout, st1)" and
    b: "call_batch_size a = Inr b" and
    i: "sequence_lengths (pad_token_id cfg) (input_ids a) = Inr idx" and
    p: "pool (map_arr2 (score env) (bmo_last_hidden_state tout)) b idx = Inr (sco_logits out)"
    by blast
  from b assms(1) obtain e where e: "inputs_embeds a = Some e" and be: "b = dim0 e"
    by (auto simp: call_batch_size_def split: option.splits)
  from i sl have idx: "idx = Scalar (- 1)" by simp
  let ?h = "bmo_last_hidden_state tout"
  have last: "sco_logits out = map (\<lambda>row. score env (last row)) (cells ?h)"
    if wf: "wf_arr2 ?h" and d0: "dim0 ?h = dim0 e" and d1: "0 < dim1 ?h"
  proof -
    have wfl: "wf_arr2 (map_arr2 (score env) ?h)"
      using wf by (simp add: wf_arr2_def map_arr2_def list_all_iff)
    have "pool (map_arr2 (score env) ?h) (dim0 (map_arr2 (score env) ?h)) (Scalar (- 1)) =
            Inr (map last (cells (map_arr2 (score env) ?h)))"
      using wfl d1 by (intro pool_scalar_last) (simp_all add: map_arr2_def)
    with p idx be d0 have "sco_logits out = map last (cells (map_arr2 (score env) ?h))"
      by (simp add: map_arr2_def)
    also have "\<dots> = map (\<lambda>row. score env (last row)) (cells ?h)"
    proof -
      have "row \<noteq> []" if "row \<in> set (cells ?h)" for row
        using that wf d1 by (auto simp: wf_arr2_def list_all_iff)
      then show ?thesis by (simp add: map_arr2_def last_map)
    qed
    finally show ?thesis .
  qed
  from sl m e p idx be last show ?thesis by auto
qed

section \<open>The calls on the plain instance\<close>

lemmas plain_defs =
  plain_externals_def tiny_config_def bare_call_def ids_call_def embeds_call_def no_cache_def
  one_empty_cache_def alloc_def init_empty_def

lemmas call_defs =
  SeedOssModel_call_def call_embeds_def call_position_ids_def derive_position_ids_def
  broadcast_to_def fits_def infer_mode_def truthy_def map_arr2_def ones_def cumsum_def
  SeedOssDecoderLayer_call_def Let_def astype_i4_def

lemma upt_small: "[0..<1] = [0]" "[0..<2] = [0, 1]"
  by (simp_all add: upt_rec)

lemma plain_run_ids:
  "SeedOssModel_call plain_externals tiny_config (ids_call [[5, 7, 1, 1]]) no_cache =
     Inr (\<lparr> bmo_last_hidden_state = \<lparr> dim0 = 1, dim1 = 4, cells = [[5, 7, 1, 1]] \<rparr>,
            bmo_hidden_states = None, bmo_attentions = None, bmo_past_key_values = 0 \<rparr>,
          \<lparr> objects = (\<lambda>r. [])(0 := [Some MODE_TRAIN, Some MODE_TRAIN]), next_addr = 1 \<rparr>)"
  by (simp add: plain_defs call_defs upt_small numeral_2_eq_2)

lemma plain_run_embeds:
  "SeedOssModel_call plain_externals tiny_config (embeds_call [[5, 7, 1, 1]]) no_cache =
     Inr (\<lparr> bmo_last_hidden_state = \<lparr> dim0 = 1, dim1 = 4, cells = [[5, 7, 1, 1]] \<rparr>,
            bmo_hidden_states = None, bmo_attentions = None, bmo_past_key_values = 0 \<rparr>,
          \<lparr> objects = (\<lambda>r. [])(0 := [Some MODE_TRAIN, Some MODE_TRAIN]), next_addr = 1 \<rparr>)"
  by (simp add: plain_defs call_defs upt_small numeral_2_eq_2)


lemma plain_classify_ids:
  "SeedOssForSequenceClassification_call plain_externals tiny_config (ids_call [[5, 7, 1, 1]]) no_cache =
     Inr (\<lparr> sco_logits = [7], sco_hidden_states = None, sco_attentions = None,
            sco_past_key_values = None \<rparr>,
          \<lparr> objects = (\<lambda>r. [])(0 := [Some MODE_TRAIN, Some MODE_TRAIN]), next_addr = 1 \<rparr>)"
  unfolding SeedOssForSequenceClassification_call_def plain_run_ids
  by (simp add: plain_defs call_batch_size_def sequence_lengths_def pad_positions_def argmax_def
        argmax_idx_def pool_def take_clamped_def map_arr2_def upt_small Let_def)

lemma plain_classify_embeds:
  "SeedOssForSequenceClassification_call plain_externals tiny_config (embeds_call [[5, 7, 1, 1]]) no_cache =
     Inr (\<lparr> sco_logits = [1], sco_hidden_states = None, sco_attentions = None,
            sco_past_key_values = None \<rparr>,
          \<lparr> objects = (\<lambda>r. [])(0 := [Some MODE_TRAIN, Some MODE_TRAIN]), next_addr = 1 \<rparr>)"
  unfolding SeedOssForSequenceClassification_call_def plain_run_embeds
  by (simp add: plain_defs call_batch_size_def sequence_lengths_def pad_positions_def argmax_def
        argmax_idx_def pool_def take_clamped_def map_arr2_def upt_small Let_def)

lemma plain_lm_ids:
  "SeedOssForCausalLM_call plain_externals tiny_config (ids_call [[5, 7, 1, 1]]) True no_cache =
     Inr (\<lparr> clm_logits = Some \<lparr> dim0 = 1, dim1 = 4, cells = [[5, 7, 1, 1]] \<rparr>,
            clm_last_hidden_state = \<lparr> dim0 = 1, dim1 = 4, cells = [[5, 7, 1, 1]] \<rparr>,
            clm_hidden_states = None, clm_past_key_values = 0, clm_attentions = None \<rparr>,
          \<lparr> objects = (\<lambda>r. [])(0 := [Some MODE_TRAIN, Some MODE_TRAIN]), next_addr = 1 \<rparr>)"
  unfolding SeedOssForCausalLM_call_def plain_run_ids
  by (simp add: plain_defs map_arr2_def)

text \<open>
  C3 fails on the code. Called with token ids and no cache, the classification head
  returns \<^verbatim>\<open>None\<close> as its cache: it hands back its own argument (line 610). The base model
  did create a cache at address 0 and wrote a view for each of the two layers, and
  returns its address, as the language-model head does (line 513).
\<close>

theorem classification_drops_created_cache:
  "(case SeedOssForSequenceClassification_call plain_externals tiny_config
           (ids_call [[5, 7, 1, 1]]) no_cache of
      Inl e \<Rightarrow> False
    | Inr (out, st1) \<Rightarrow>
        sco_past_key_values out = None \<and>
        objects st1 0 = [Some MODE_TRAIN, Some MODE_TRAIN]) \<and>
   (case SeedOssModel_call plain_externals tiny_config (ids_call [[5, 7, 1, 1]]) no_cache of
      Inl e \<Rightarrow> False
    | Inr (out, st1) \<Rightarrow>
        bmo_past_key_values out = 0 \<and>
        objects st1 0 = [Some MODE_TRAIN, Some MODE_TRAIN]) \<and>
   (case SeedOssForCausalLM_call plain_externals tiny_config (ids_call [[5, 7, 1, 1]]) True no_cache of
      Inl e \<Rightarrow> False
    | Inr (out, st1) \<Rightarrow> clm_past_key_values out = 0)"
  by (simp add: plain_classify_ids plain_run_ids plain_lm_ids)


text \<open>
  Five tokens with at most four positions raise the assertion; four tokens do not.
\<close>

theorem max_position_check_witness:
  "SeedOssModel_call plain_externals tiny_config (ids_call [[5, 7, 1, 1, 9]]) no_cache =
     Inl (AssertionError msg_max_position) \<and>
   SeedOssModel_call plain_externals tiny_config (ids_call [[5, 7, 1, 1]]) no_cache \<noteq>
     Inl (AssertionError msg_max_position)"
proof -
  have long: "(input_ids (ids_call [[5, 7, 1, 1, 9]]) = None) \<noteq>
              (inputs_embeds (ids_call [[5, 7, 1, 1, 9]]) = None)"
    by (simp add: plain_defs)
  have full: "(input_ids (ids_call [[5, 7, 1, 1]]) = None) \<noteq>
              (inputs_embeds (ids_call [[5, 7, 1, 1]]) = None)"
    by (simp add: plain_defs)
  from max_position_check [OF long, of plain_externals tiny_config no_cache]
  have a: "SeedOssModel_call plain_externals tiny_config (ids_call [[5, 7, 1, 1, 9]]) no_cache =
             Inl (AssertionError msg_max_position)"
    by (auto simp: plain_defs)
  from max_position_check [OF full, of plain_externals tiny_config no_cache]
  have b: "SeedOssModel_call plain_externals tiny_config (ids_call [[5, 7, 1, 1]]) no_cache \<noteq>
             Inl (AssertionError msg_max_position)"
    by (auto simp: plain_defs)
  from a b show ?thesis by simp
qed



text \<open>
  Given as embeddings, the sequence 5, 7, 1, 1 is pooled at its last position, although
  the padding token 1 occurs earlier.
\<close>

theorem embeds_pool_last_witness:
  "(case SeedOssForSequenceClassification_call plain_externals tiny_config
           (embeds_call [[5, 7, 1, 1]]) no_cache of
      Inl e \<Rightarrow> False
    | Inr (out, st1) \<Rightarrow> sco_logits out = [1]) \<and>
   sequence_lengths (pad_token_id tiny_config) (input_ids (embeds_call [[5, 7, 1, 1]])) =
     Inr (Scalar (- 1))"
proof -
  have "input_ids (embeds_call [[5, 7, 1, 1]]) = None" by (simp add: plain_defs)
  from embeds_pool_last [OF this plain_classify_embeds]
  have "sequence_lengths (pad_token_id tiny_config) (input_ids (embeds_call [[5, 7, 1, 1]])) =
          Inr (Scalar (- 1))"
    by blast
  then show ?thesis by (simp add: plain_classify_embeds)
qed

text \<open>
  A call with token ids only raises no \<^verbatim>\<open>ValueError\<close>; a call with neither input, and a
  call with both, raise the one of line 349.
\<close>

theorem ids_embeds_validation_witness:
  "(\<forall>msg. SeedOssModel_call plain_externals tiny_config (ids_call [[5, 7, 1, 1]]) no_cache \<noteq>
            Inl (ValueError msg)) \<and>
   SeedOssModel_call plain_externals tiny_config bare_call no_cache =
     Inl (ValueError msg_ids_embeds) \<and>
   SeedOssModel_call plain_externals tiny_config
       ((ids_call [[5, 7, 1, 1]])\<lparr>inputs_embeds := Some \<lparr> dim0 = 1, dim1 = 4, cells = [[5, 7, 1, 1]] \<rparr>\<rparr>)
       no_cache =
     Inl (ValueError msg_ids_embeds)"
proof (intro conjI allI)
  fix msg
  have "(input_ids (ids_call [[5, 7, 1, 1]]) = None) \<noteq> (inputs_embeds (ids_call [[5, 7, 1, 1]]) = None)"
    by (simp add: plain_defs)
  moreover have "call_embeds plain_externals (ids_call [[5, 7, 1, 1]]) =
                   Inr \<lparr> dim0 = 1, dim1 = 4, cells = [[5, 7, 1, 1]] \<rparr>"
    by (simp add: plain_defs call_defs)
  moreover have "fits (q_segment_ids plain_externals
                   (dynamic_init plain_externals (mask_info (ids_call [[5, 7, 1, 1]]))
                      (input_ids (ids_call [[5, 7, 1, 1]]))
                      \<lparr> dim0 = 1, dim1 = 4, cells = [[5, 7, 1, 1]] \<rparr>
                      (attention_mask (ids_call [[5, 7, 1, 1]]))))
                   (dim0 \<lparr> dim0 = 1, dim1 = 4, cells = [[5, 7, 1, 1 :: int]] \<rparr>)
                   (dim1 \<lparr> dim0 = 1, dim1 = 4, cells = [[5, 7, 1, 1 :: int]] \<rparr>)"
    by (simp add: plain_defs fits_def ones_def)
  ultimately show "SeedOssModel_call plain_externals tiny_config (ids_call [[5, 7, 1, 1]]) no_cache \<noteq>
                     Inl (ValueError msg)"
    using ids_embeds_validation [of plain_externals tiny_config "ids_call [[5, 7, 1, 1]]" no_cache]
    by blast
next
  show "SeedOssModel_call plain_externals tiny_config bare_call no_cache =
          Inl (ValueError msg_ids_embeds)"
    using ids_embeds_validation [of plain_externals tiny_config bare_call no_cache]
    by (simp add: plain_defs)
next
  show "SeedOssModel_call plain_externals tiny_config
          ((ids_call [[5, 7, 1, 1]])\<lparr>inputs_embeds := Some \<lparr> dim0 = 1, dim1 = 4, cells = [[5, 7, 1, 1]] \<rparr>\<rparr>)
          no_cache =
        Inl (ValueError msg_ids_embeds)"
    using ids_embeds_validation [of plain_externals tiny_config
        "(ids_call [[5, 7, 1, 1]])\<lparr>inputs_embeds := Some \<lparr> dim0 = 1, dim1 = 4, cells = [[5, 7, 1, 1]] \<rparr>\<rparr>"
        no_cache]
    by (simp add: plain_defs)
qed

end
